theory Spec2Isabelle
  imports Complex_Main
begin

section \<open>Central heating demand: data model\<close>

text \<open>
  The integration reads climate entities from the host's state store. A stored
  state carries the raw state string and an attribute mapping; the four
  attributes the code reads with \<^verbatim>\<open>attributes.get\<close> are modelled as optional
  fields (\<open>None\<close> is Python's \<^verbatim>\<open>None\<close>, an absent attribute).

  Temperatures are Python floats. A finite double is a real number, and the
  comparisons and \<^verbatim>\<open>max\<close> of the code are those of the reals, so the values
  are modelled as \<^typ>\<open>real\<close>. The one arithmetic operation of the code, the
  subtraction on line 231, rounds its result to a double, so it is not the
  subtraction of the reals: it is a parameter \<open>fsub\<close> of the model, and the
  theorems hold for every such operation, the rounded subtraction of doubles
  among them. Concrete instances pass the exact subtraction and use readings
  whose difference is itself a double (small integers), where the two operations
  give the same result. NaN and the infinities are outside the model.
\<close>

record trv_state =
  state :: string
  hvac_action :: "string option"
  current_temperature :: "real option"
  temperature :: "real option"
  friendly_name :: "string option"

type_synonym states = "string \<rightharpoonup> trv_state"

text \<open>The configuration handed to \<^verbatim>\<open>CentralHeatingDemandBinarySensor.__init__\<close>.\<close>

record config =
  trv_climate_entities :: "string list"
  heater_entity_id :: "string option"
  minimum_temperature :: real
  away_temp :: real
  zone_entity_id :: "string option"

text \<open>The mutable fields of the binary sensor object.\<close>

record binary_sensor =
  is_heating_demanded :: bool
  max_demand_delta :: real
  max_demand_current_temperature :: "real option"
  max_demand_target_temperature :: "real option"
  max_demand_trv_entity_id :: "string option"
  last_sent_target_temperature :: "real option"
  last_sent_hvac_mode :: "string option"
  max_demand_trv_name :: "string option"
  is_away :: bool

definition init_sensor :: binary_sensor where
  "init_sensor =
     \<lparr> is_heating_demanded = False,
       max_demand_delta = 0,
       max_demand_current_temperature = None,
       max_demand_target_temperature = None,
       max_demand_trv_entity_id = None,
       last_sent_target_temperature = None,
       last_sent_hvac_mode = None,
       max_demand_trv_name = None,
       is_away = False \<rparr>"

text \<open>The local variables of \<^verbatim>\<open>_async_update_heating_demand\<close> that the loop updates.\<close>

record scan =
  demanding_trvs :: nat
  max_delta :: real
  leader_entity_id :: "string option"
  leader_current_temp :: "real option"
  leader_target_temp :: "real option"
  leader_friendly_name :: "string option"
  valid_trv_found :: bool

definition init_scan :: scan where
  "init_scan =
     \<lparr> demanding_trvs = 0,
       max_delta = - 100,
       leader_entity_id = None,
       leader_current_temp = None,
       leader_target_temp = None,
       leader_friendly_name = None,
       valid_trv_found = False \<rparr>"

text \<open>Python truthiness of an optional string: \<^verbatim>\<open>None\<close> and \<^verbatim>\<open>""\<close> are false.\<close>

fun truthy :: "string option \<Rightarrow> bool" where
  "truthy None = False"
| "truthy (Some s) = (s \<noteq> [])"

section \<open>The binary sensor's recompute\<close>

text \<open>Lines 198 to 203: away mode is resolved from the zone entity on every pass.\<close>

definition check_away :: "config \<Rightarrow> states \<Rightarrow> bool" where
  "check_away cfg st =
     (case zone_entity_id cfg of
        None \<Rightarrow> False
      | Some z \<Rightarrow>
          if truthy (Some z) then
            (case st z of
               None \<Rightarrow> False
             | Some zone_state \<Rightarrow> state zone_state = ''0'')
          else False)"

text \<open>
  Lines 227 to 231: the effective target and the delta of one valid TRV, with the
  float subtraction \<open>fsub\<close> as a parameter.
\<close>

definition effective_target_temperature :: "bool \<Rightarrow> real \<Rightarrow> real \<Rightarrow> real" where
  "effective_target_temperature away away_t target_temperature =
     (if away then away_t else target_temperature)"

definition trv_delta ::
  "(real \<Rightarrow> real \<Rightarrow> real) \<Rightarrow> bool \<Rightarrow> real \<Rightarrow> real \<Rightarrow> real \<Rightarrow> real" where
  "trv_delta fsub away away_t cur target_temperature =
     fsub (effective_target_temperature away away_t target_temperature) cur"

text \<open>Lines 207 to 250: the body of the loop for one configured entity id.\<close>

definition trv_step ::
  "(real \<Rightarrow> real \<Rightarrow> real) \<Rightarrow> states \<Rightarrow> bool \<Rightarrow> real \<Rightarrow> string \<Rightarrow> scan \<Rightarrow> scan" where
  "trv_step fsub st away away_t entity_id acc =
     (case st entity_id of
        None \<Rightarrow> acc
      | Some s \<Rightarrow>
          (case current_temperature s of
             None \<Rightarrow> acc
           | Some cur \<Rightarrow>
               (case temperature s of
                  None \<Rightarrow> acc
                | Some tgt \<Rightarrow>
                    (let delta = trv_delta fsub away away_t cur tgt;
                         acc1 = acc\<lparr>valid_trv_found := True\<rparr>;
                         acc2 = (if hvac_action s = Some ''heating''
                                    \<or> (state s = ''heat'' \<and> delta > 0)
                                 then acc1\<lparr>demanding_trvs := demanding_trvs acc1 + 1\<rparr>
                                 else acc1)
                     in if delta > max_delta acc2
                        then acc2\<lparr>max_delta := delta,
                                  leader_entity_id := Some entity_id,
                                  leader_current_temp := Some cur,
                                  leader_target_temp := Some tgt,
                                  leader_friendly_name := friendly_name s\<rparr>
                        else acc2))))"

fun trv_loop ::
  "(real \<Rightarrow> real \<Rightarrow> real) \<Rightarrow> states \<Rightarrow> bool \<Rightarrow> real \<Rightarrow> string list \<Rightarrow> scan \<Rightarrow> scan" where
  "trv_loop fsub st away away_t [] acc = acc"
| "trv_loop fsub st away away_t (entity_id # rest) acc =
     trv_loop fsub st away away_t rest (trv_step fsub st away away_t entity_id acc)"

text \<open>Lines 252 to 267: the fields published after the loop.\<close>

definition publish :: "scan \<Rightarrow> bool \<Rightarrow> binary_sensor \<Rightarrow> binary_sensor" where
  "publish acc away self =
     (let self1 = self\<lparr>is_away := away, is_heating_demanded := (demanding_trvs acc > 0)\<rparr>
      in if valid_trv_found acc \<and> truthy (leader_entity_id acc)
         then self1\<lparr>max_demand_delta := max 0 (max_delta acc),
                    max_demand_current_temperature := leader_current_temp acc,
                    max_demand_target_temperature := leader_target_temp acc,
                    max_demand_trv_entity_id := leader_entity_id acc,
                    max_demand_trv_name := leader_friendly_name acc\<rparr>
         else self1\<lparr>max_demand_delta := 0,
                    max_demand_current_temperature := None,
                    max_demand_target_temperature := None,
                    max_demand_trv_entity_id := None,
                    max_demand_trv_name := None\<rparr>)"

text \<open>
  Lines 269 to 281: the command handed to \<^verbatim>\<open>_async_control_heater\<close>, as the pair
  of target temperature and hvac mode; \<open>None\<close> when no heater is configured.
\<close>

definition heater_command :: "config \<Rightarrow> binary_sensor \<Rightarrow> (real \<times> string) option" where
  "heater_command cfg self =
     (if truthy (heater_entity_id cfg) then
        (if is_heating_demanded self then
           (case max_demand_target_temperature self of
              None \<Rightarrow> Some (minimum_temperature cfg, ''heat'')
            | Some t \<Rightarrow> Some (t, ''heat''))
         else Some (minimum_temperature cfg, ''off''))
      else None)"

definition scan_trvs :: "(real \<Rightarrow> real \<Rightarrow> real) \<Rightarrow> config \<Rightarrow> states \<Rightarrow> scan" where
  "scan_trvs fsub cfg st =
     trv_loop fsub st (check_away cfg st) (away_temp cfg) (trv_climate_entities cfg) init_scan"

definition update_heating_demand ::
  "(real \<Rightarrow> real \<Rightarrow> real) \<Rightarrow> config \<Rightarrow> states \<Rightarrow> binary_sensor
     \<Rightarrow> binary_sensor \<times> (real \<times> string) option" where
  "update_heating_demand fsub cfg st self =
     (let self' = publish (scan_trvs fsub cfg st) (check_away cfg st) self
      in (self', heater_command cfg self'))"

section \<open>The heater dispatcher\<close>



section \<open>The plain sensor\<close>

text \<open>Lines 124 to 129 of \<^verbatim>\<open>sensor.py\<close>: the demand rule for one present state.\<close>

definition sensor_rule :: "trv_state \<Rightarrow> bool" where
  "sensor_rule s =
     (hvac_action s = Some ''heating''
      \<or> (state s = ''heat''
         \<and> (case current_temperature s of
                None \<Rightarrow> False
              | Some cur \<Rightarrow>
                  (case temperature s of
                     None \<Rightarrow> False
                   | Some tgt \<Rightarrow> cur < tgt))))"

text \<open>Lines 111 to 132: the loop, which leaves at the first demanding TRV.\<close>

fun sensor_loop :: "states \<Rightarrow> string list \<Rightarrow> nat \<Rightarrow> nat" where
  "sensor_loop st [] n = n"
| "sensor_loop st (entity_id # rest) n =
     (case st entity_id of
        None \<Rightarrow> sensor_loop st rest n
      | Some s \<Rightarrow> if sensor_rule s then n + 1 else sensor_loop st rest n)"

definition sensor_update :: "string list \<Rightarrow> states \<Rightarrow> bool" where
  "sensor_update entities st = (sensor_loop st entities 0 > 0)"

definition sensor_state :: "bool \<Rightarrow> string" where
  "sensor_state demanded = (if demanded then ''on'' else ''off'')"

text \<open>
  The comparison object for the early exit: the same loop body without the
  \<^verbatim>\<open>break\<close>, counting every demanding TRV of the configured list.
\<close>

fun full_scan_count :: "states \<Rightarrow> string list \<Rightarrow> nat \<Rightarrow> nat" where
  "full_scan_count st [] n = n"
| "full_scan_count st (entity_id # rest) n =
     (case st entity_id of
        None \<Rightarrow> full_scan_count st rest n
      | Some s \<Rightarrow> if sensor_rule s then full_scan_count st rest (n + 1)
                  else full_scan_count st rest n)"

section \<open>Notions used to state the properties\<close>

text \<open>
  The delta of a configured entity as the recompute computes it: defined only for
  a valid TRV (state present, both temperatures present), and then the float
  subtraction \<open>fsub\<close> of the current temperature from the effective target.
\<close>

definition reading_delta ::
  "(real \<Rightarrow> real \<Rightarrow> real) \<Rightarrow> states \<Rightarrow> bool \<Rightarrow> real \<Rightarrow> string \<Rightarrow> real option" where
  "reading_delta fsub st away away_t entity_id =
     (case st entity_id of
        None \<Rightarrow> None
      | Some s \<Rightarrow>
          (case current_temperature s of
             None \<Rightarrow> None
           | Some cur \<Rightarrow>
               (case temperature s of
                  None \<Rightarrow> None
                | Some tgt \<Rightarrow> Some (fsub (if away then away_t else tgt) cur))))"

text \<open>A store in which every present target temperature is replaced by a fixed one.\<close>

definition override_targets :: "real \<Rightarrow> states \<Rightarrow> states" where
  "override_targets t st =
     (\<lambda>entity_id. map_option (\<lambda>s. s\<lparr>temperature := map_option (\<lambda>_. t) (temperature s)\<rparr>)
                   (st entity_id))"

definition forget_target :: "scan \<Rightarrow> scan" where
  "forget_target acc = acc\<lparr>leader_target_temp := None\<rparr>"

text \<open>Concrete inputs: the schema's defaults, and a TRV state without a friendly name.\<close>

definition demo_config :: "string list \<Rightarrow> string option \<Rightarrow> config" where
  "demo_config entities zone =
     \<lparr> trv_climate_entities = entities,
       heater_entity_id = Some ''climate.boiler'',
       minimum_temperature = 5,
       away_temp = 12,
       zone_entity_id = zone \<rparr>"

definition demo_trv ::
  "string \<Rightarrow> string option \<Rightarrow> real option \<Rightarrow> real option \<Rightarrow> trv_state" where
  "demo_trv raw action cur tgt =
     \<lparr> state = raw,
       hvac_action = action,
       current_temperature = cur,
       temperature = tgt,
       friendly_name = None \<rparr>"

section \<open>The demand flag of the binary sensor\<close>

lemma trv_step_demanding_mono:
  "demanding_trvs acc \<le> demanding_trvs (trv_step fsub st away a e acc)"
  by (simp add: trv_step_def Let_def split: option.splits)

lemma trv_loop_demanding_mono:
  "demanding_trvs acc \<le> demanding_trvs (trv_loop fsub st away a es acc)"
proof (induction es arbitrary: acc)
  case Nil
  show ?case by simp
next
  case (Cons e es)
  have "demanding_trvs acc \<le> demanding_trvs (trv_step fsub st away a e acc)"
    by (rule trv_step_demanding_mono)
  also have "\<dots> \<le> demanding_trvs (trv_loop fsub st away a es (trv_step fsub st away a e acc))"
    by (rule Cons.IH)
  finally show ?case by simp
qed

lemma trv_step_heating:
  assumes "st e = Some s" "hvac_action s = Some ''heating''"
    "current_temperature s = Some c" "temperature s = Some t"
  shows "0 < demanding_trvs (trv_step fsub st away a e acc)"
  using assms by (simp add: trv_step_def Let_def)

lemma trv_loop_heating:
  assumes "e \<in> set es" "st e = Some s" "hvac_action s = Some ''heating''"
    "current_temperature s = Some c" "temperature s = Some t"
  shows "0 < demanding_trvs (trv_loop fsub st away a es acc)"
  using assms(1)
proof (induction es arbitrary: acc)
  case Nil
  then show ?case by simp
next
  case (Cons x xs)
  show ?case
  proof (cases "x = e")
    case True
    have "0 < demanding_trvs (trv_step fsub st away a e acc)"
      using assms(2-5) by (rule trv_step_heating)
    also have "\<dots> \<le> demanding_trvs (trv_loop fsub st away a xs (trv_step fsub st away a e acc))"
      by (rule trv_loop_demanding_mono)
    finally show ?thesis using True by simp
  next
    case False
    with Cons.prems have "e \<in> set xs" by simp
    then show ?thesis using Cons.IH by simp
  qed
qed

lemma is_heating_demanded_update:
  "is_heating_demanded (fst (update_heating_demand fsub cfg st self))
     = (0 < demanding_trvs (scan_trvs fsub cfg st))"
  by (simp add: update_heating_demand_def publish_def Let_def)

text \<open>
  Claim C1, as the code has it. The loop skips a TRV whose
  \<^verbatim>\<open>current_temperature\<close> or \<^verbatim>\<open>temperature\<close> attribute is absent before it looks
  at \<^verbatim>\<open>hvac_action\<close> (line 219). So: if a configured TRV whose state is present
  and whose two temperatures are both present has \<^verbatim>\<open>hvac_action == "heating"\<close>,
  then the recompute sets the demand flag, whatever the raw state and whatever
  the two temperature values are.
\<close>

theorem heating_action_demands:
  assumes "e \<in> set (trv_climate_entities cfg)" "st e = Some s"
    "hvac_action s = Some ''heating''"
    "current_temperature s = Some c" "temperature s = Some t"
  shows "is_heating_demanded (fst (update_heating_demand fsub cfg st self))"
  unfolding is_heating_demanded_update scan_trvs_def
  using assms by (rule trv_loop_heating)

text \<open>
  An instance: raw state \<^verbatim>\<open>"off"\<close> and a current temperature above the target,
  with the action \<^verbatim>\<open>"heating"\<close>.
\<close>

theorem heating_action_demands_witness:
  "''climate.trv1'' \<in> set (trv_climate_entities (demo_config [''climate.trv1''] None))
   \<and> [''climate.trv1'' \<mapsto> demo_trv ''off'' (Some ''heating'') (Some 22) (Some 20)]
        ''climate.trv1''
      = Some (demo_trv ''off'' (Some ''heating'') (Some 22) (Some 20))
   \<and> hvac_action (demo_trv ''off'' (Some ''heating'') (Some 22) (Some 20)) = Some ''heating''
   \<and> current_temperature (demo_trv ''off'' (Some ''heating'') (Some 22) (Some 20)) = Some 22
   \<and> temperature (demo_trv ''off'' (Some ''heating'') (Some 22) (Some 20)) = Some 20
   \<and> is_heating_demanded
        (fst (update_heating_demand (-) (demo_config [''climate.trv1''] None)
               [''climate.trv1'' \<mapsto> demo_trv ''off'' (Some ''heating'') (Some 22) (Some 20)]
               init_sensor))"
proof -
  let ?s = "demo_trv ''off'' (Some ''heating'') (Some 22) (Some 20)"
  have h1: "''climate.trv1'' \<in> set (trv_climate_entities (demo_config [''climate.trv1''] None))"
    by (simp add: demo_config_def)
  have h2: "[''climate.trv1'' \<mapsto> ?s] ''climate.trv1'' = Some ?s"
    by simp
  have h3: "hvac_action ?s = Some ''heating''"
    and h4: "current_temperature ?s = Some 22"
    and h5: "temperature ?s = Some 20"
    by (simp_all add: demo_trv_def)
  have "is_heating_demanded
          (fst (update_heating_demand (-) (demo_config [''climate.trv1''] None)
                 [''climate.trv1'' \<mapsto> ?s] init_sensor))"
    using h1 h2 h3 h4 h5
    by (rule heating_action_demands
          [where e = "''climate.trv1''" and s = "?s" and c = 22 and t = 20 and fsub = "(-)"])
  with h1 h2 h3 h4 h5 show ?thesis by simp
qed

text \<open>
  Claim C1 as stated also covers a heating TRV without a temperature attribute.
  There it fails: the only configured TRV reports \<^verbatim>\<open>hvac_action == "heating"\<close>
  and no \<^verbatim>\<open>current_temperature\<close>, and the recompute leaves the demand flag false.
\<close>

theorem heating_without_temperature_counterexample:
  "[''climate.trv1'' \<mapsto> demo_trv ''heat'' (Some ''heating'') None (Some 21)] ''climate.trv1''
     = Some (demo_trv ''heat'' (Some ''heating'') None (Some 21))
   \<and> hvac_action (demo_trv ''heat'' (Some ''heating'') None (Some 21)) = Some ''heating''
   \<and> \<not> is_heating_demanded
        (fst (update_heating_demand (-) (demo_config [''climate.trv1''] None)
               [''climate.trv1'' \<mapsto> demo_trv ''heat'' (Some ''heating'') None (Some 21)]
               init_sensor))"
  by (simp add: update_heating_demand_def publish_def scan_trvs_def trv_step_def
        check_away_def init_scan_def demo_config_def demo_trv_def Let_def)

section \<open>The published delta\<close>

text \<open>
  Claim C5. After every recompute the published \<^verbatim>\<open>max_demand_delta\<close> is at least
  zero, for every configuration, store and previous sensor state: it is either
  \<^verbatim>\<open>max(0.0, max_delta)\<close> or the fallback \<^verbatim>\<open>0.0\<close>.
\<close>

theorem max_demand_delta_nonneg:
  "0 \<le> max_demand_delta (fst (update_heating_demand fsub cfg st self))"
  by (simp add: update_heating_demand_def publish_def Let_def)

section \<open>Leader selection\<close>

lemmas run_defs =
  update_heating_demand_def publish_def heater_command_def scan_trvs_def trv_step_def
  trv_delta_def effective_target_temperature_def check_away_def init_scan_def
  init_sensor_def demo_config_def demo_trv_def reading_delta_def Let_def

lemma trv_loop_append:
  "trv_loop fsub st away a (xs @ ys) acc = trv_loop fsub st away a ys (trv_loop fsub st away a xs acc)"
  by (induction xs arbitrary: acc) simp_all

text \<open>A TRV whose delta does not exceed the running maximum leaves the leader alone.\<close>

lemma trv_step_keeps_leader:
  assumes "\<forall>d. reading_delta fsub st away a e = Some d \<longrightarrow> d \<le> max_delta acc"
  shows "max_delta (trv_step fsub st away a e acc) = max_delta acc
    \<and> leader_entity_id (trv_step fsub st away a e acc) = leader_entity_id acc
    \<and> leader_current_temp (trv_step fsub st away a e acc) = leader_current_temp acc
    \<and> leader_target_temp (trv_step fsub st away a e acc) = leader_target_temp acc
    \<and> leader_friendly_name (trv_step fsub st away a e acc) = leader_friendly_name acc"
  using assms
  by (auto simp add: trv_step_def reading_delta_def trv_delta_def
        effective_target_temperature_def Let_def split: option.splits)

lemma trv_loop_keeps_leader:
  assumes "\<forall>x\<in>set xs. \<forall>d. reading_delta fsub st away a x = Some d \<longrightarrow> d \<le> max_delta acc"
  shows "max_delta (trv_loop fsub st away a xs acc) = max_delta acc
    \<and> leader_entity_id (trv_loop fsub st away a xs acc) = leader_entity_id acc
    \<and> leader_current_temp (trv_loop fsub st away a xs acc) = leader_current_temp acc
    \<and> leader_target_temp (trv_loop fsub st away a xs acc) = leader_target_temp acc
    \<and> leader_friendly_name (trv_loop fsub st away a xs acc) = leader_friendly_name acc"
  using assms
proof (induction xs arbitrary: acc)
  case Nil
  show ?case by simp
next
  case (Cons x xs)
  have x: "\<forall>d. reading_delta fsub st away a x = Some d \<longrightarrow> d \<le> max_delta acc"
    using Cons.prems by simp
  note keep = trv_step_keeps_leader [OF x]
  have "\<forall>y\<in>set xs. \<forall>d. reading_delta fsub st away a y = Some d
          \<longrightarrow> d \<le> max_delta (trv_step fsub st away a x acc)"
    using Cons.prems keep by simp
  from Cons.IH [OF this] keep show ?case by simp
qed

text \<open>Deltas strictly below a bound keep the running maximum strictly below it.\<close>

lemma trv_step_stays_below:
  assumes "max_delta acc < d"
    and "\<forall>d'. reading_delta fsub st away a e = Some d' \<longrightarrow> d' < d"
  shows "max_delta (trv_step fsub st away a e acc) < d"
  using assms
  by (auto simp add: trv_step_def reading_delta_def trv_delta_def
        effective_target_temperature_def Let_def split: option.splits)

lemma trv_loop_stays_below:
  assumes "max_delta acc < d"
    and "\<forall>x\<in>set xs. \<forall>d'. reading_delta fsub st away a x = Some d' \<longrightarrow> d' < d"
  shows "max_delta (trv_loop fsub st away a xs acc) < d"
  using assms
proof (induction xs arbitrary: acc)
  case Nil
  then show ?case by simp
next
  case (Cons x xs)
  have "max_delta (trv_step fsub st away a x acc) < d"
    using Cons.prems by (intro trv_step_stays_below) simp_all
  moreover have "\<forall>y\<in>set xs. \<forall>d'. reading_delta fsub st away a y = Some d' \<longrightarrow> d' < d"
    using Cons.prems by simp
  ultimately show ?case using Cons.IH by simp
qed

text \<open>A valid TRV whose delta exceeds the running maximum becomes the leader.\<close>

lemma trv_step_takes_leader:
  assumes "reading_delta fsub st away a e = Some d" and "max_delta acc < d"
  shows "max_delta (trv_step fsub st away a e acc) = d
    \<and> leader_entity_id (trv_step fsub st away a e acc) = Some e
    \<and> valid_trv_found (trv_step fsub st away a e acc)
    \<and> (\<exists>s. st e = Some s
          \<and> leader_current_temp (trv_step fsub st away a e acc) = current_temperature s
          \<and> leader_target_temp (trv_step fsub st away a e acc) = temperature s
          \<and> leader_friendly_name (trv_step fsub st away a e acc) = friendly_name s)"
  using assms
  by (auto simp add: trv_step_def reading_delta_def trv_delta_def
        effective_target_temperature_def Let_def split: option.splits)

lemma trv_step_valid_mono:
  "valid_trv_found acc \<Longrightarrow> valid_trv_found (trv_step fsub st away a e acc)"
  by (simp add: trv_step_def Let_def split: option.splits)

lemma trv_loop_valid_mono:
  "valid_trv_found acc \<Longrightarrow> valid_trv_found (trv_loop fsub st away a es acc)"
  by (induction es arbitrary: acc) (simp_all add: trv_step_valid_mono)

text \<open>
  The loop over a list split at the first entity that reaches the largest delta:
  every valid entity before it has a strictly smaller delta, every valid entity
  after it a delta that is not larger, and the delta exceeds the maximum the loop
  started with. That entity is the leader.
\<close>

lemma trv_loop_first_max:
  assumes "reading_delta fsub st away a e = Some d" and "max_delta acc < d"
    and "\<forall>x\<in>set pre. \<forall>d'. reading_delta fsub st away a x = Some d' \<longrightarrow> d' < d"
    and "\<forall>x\<in>set post. \<forall>d'. reading_delta fsub st away a x = Some d' \<longrightarrow> d' \<le> d"
  shows "max_delta (trv_loop fsub st away a (pre @ e # post) acc) = d
    \<and> leader_entity_id (trv_loop fsub st away a (pre @ e # post) acc) = Some e
    \<and> valid_trv_found (trv_loop fsub st away a (pre @ e # post) acc)
    \<and> (\<exists>s. st e = Some s
          \<and> leader_current_temp (trv_loop fsub st away a (pre @ e # post) acc) = current_temperature s
          \<and> leader_target_temp (trv_loop fsub st away a (pre @ e # post) acc) = temperature s
          \<and> leader_friendly_name (trv_loop fsub st away a (pre @ e # post) acc) = friendly_name s)"
proof -
  let ?acc1 = "trv_loop fsub st away a pre acc"
  let ?acc2 = "trv_step fsub st away a e ?acc1"
  have below: "max_delta ?acc1 < d"
    using assms(2,3) by (rule trv_loop_stays_below)
  note take = trv_step_takes_leader [OF assms(1) below]
  have "\<forall>x\<in>set post. \<forall>d'. reading_delta fsub st away a x = Some d' \<longrightarrow> d' \<le> max_delta ?acc2"
    using assms(4) take by simp
  note keep = trv_loop_keeps_leader [OF this]
  have valid: "valid_trv_found (trv_loop fsub st away a post ?acc2)"
    using take by (intro trv_loop_valid_mono) simp
  have "trv_loop fsub st away a (pre @ e # post) acc = trv_loop fsub st away a post ?acc2"
    by (simp add: trv_loop_append)
  with take keep valid show ?thesis by simp
qed

text \<open>
  The first example of the specification: deltas 2, 2 and 3 for the TRVs A, B and
  C in that order make C the leader.
\<close>

lemma leader_example_abc:
  "leader_entity_id
     (scan_trvs (-) (demo_config [''climate.a'', ''climate.b'', ''climate.c''] None)
        [''climate.a'' \<mapsto> demo_trv ''heat'' None (Some 18) (Some 20),
         ''climate.b'' \<mapsto> demo_trv ''heat'' None (Some 19) (Some 21),
         ''climate.c'' \<mapsto> demo_trv ''heat'' None (Some 18) (Some 21)])
     = Some ''climate.c''"
  by (simp add: run_defs)

text \<open>
  Claim C3 says that for every list of valid readings the leader is the TRV with
  the largest delta. The loop starts from the threshold \<^verbatim>\<open>-100.0\<close> and replaces
  the leader only on a strictly larger delta, so a single valid TRV whose current
  temperature is 150 with target 20 (delta \<open>-130\<close>, which the float subtraction
  gives without rounding) has the largest delta of its list and still is not
  chosen: the loop ends without a leader.
\<close>

theorem leader_below_threshold_missing:
  "reading_delta (-) [''climate.trv1'' \<mapsto> demo_trv ''heat'' None (Some 150) (Some 20)]
       False 12 ''climate.trv1'' = Some (- 130)
   \<and> check_away (demo_config [''climate.trv1''] None)
        [''climate.trv1'' \<mapsto> demo_trv ''heat'' None (Some 150) (Some 20)] = False
   \<and> leader_entity_id
        (scan_trvs (-) (demo_config [''climate.trv1''] None)
           [''climate.trv1'' \<mapsto> demo_trv ''heat'' None (Some 150) (Some 20)])
      = None"
  by (simp add: run_defs)

text \<open>
  A tie that exists only among the computed deltas: whatever the readings of A and
  B are, when the float subtraction gives both the same delta above the threshold,
  A stays the leader, also when the exact difference of B is the larger one.
\<close>

lemma computed_tie_keeps_first:
  assumes "fsub ta ca = fsub tb cb" and "- 100 < fsub ta ca"
  shows "leader_entity_id
     (scan_trvs fsub (demo_config [''climate.a'', ''climate.b''] None)
        [''climate.a'' \<mapsto> demo_trv ''heat'' None (Some ca) (Some ta),
         ''climate.b'' \<mapsto> demo_trv ''heat'' None (Some cb) (Some tb)])
     = Some ''climate.a''"
  using assms by (simp add: run_defs)

text \<open>
  Claim C4, as the code has it. The comparison on line 245 is strict, so among TRVs
  that share the largest delta the first one in configured order stays the leader.
  The deltas are the ones the code computes and compares, the results of the float
  subtraction \<open>fsub\<close> on line 231: two readings whose exact differences differ
  can have the same computed delta, and the reverse, and it is the computed
  deltas that decide. When the configured list splits into
  \<open>pre @ e1 # mid @ e2 # post\<close>, where \<open>e1\<close> and \<open>e2\<close> both have the computed
  delta \<open>d\<close>, every valid entity of \<open>pre\<close> has a computed delta below \<open>d\<close>, no
  valid entity has a computed delta above \<open>d\<close>, and \<open>d\<close> exceeds the initial
  threshold \<open>-100\<close>, the leader is \<open>e1\<close>. This holds for every subtraction
  operation, so for the rounded one of the code.
\<close>

theorem tie_keeps_first:
  assumes "trv_climate_entities cfg = pre @ e1 # mid @ e2 # post"
    and "reading_delta fsub st (check_away cfg st) (away_temp cfg) e1 = Some d"
    and "reading_delta fsub st (check_away cfg st) (away_temp cfg) e2 = Some d"
    and "\<forall>x\<in>set pre. \<forall>d'.
           reading_delta fsub st (check_away cfg st) (away_temp cfg) x = Some d' \<longrightarrow> d' < d"
    and "\<forall>x\<in>set (mid @ post). \<forall>d'.
           reading_delta fsub st (check_away cfg st) (away_temp cfg) x = Some d' \<longrightarrow> d' \<le> d"
    and "- 100 < d"
  shows "leader_entity_id (scan_trvs fsub cfg st) = Some e1"
proof -
  have "\<forall>x\<in>set (mid @ e2 # post).
          \<forall>d'. reading_delta fsub st (check_away cfg st) (away_temp cfg) x = Some d' \<longrightarrow> d' \<le> d"
    using assms(3,5) by auto
  moreover have "max_delta init_scan < d"
    using assms(6) by (simp add: init_scan_def)
  ultimately show ?thesis
    unfolding scan_trvs_def assms(1)
    using trv_loop_first_max [OF assms(2) _ assms(4)] by blast
qed

text \<open>
  An instance: deltas 2, 3, 3 and 1 for A, B, C and D; B and C share the largest
  delta and B, the earlier one, is the leader. The readings are small integers,
  whose float differences are exact.
\<close>

theorem tie_keeps_first_witness:
  "trv_climate_entities (demo_config [''climate.a'', ''climate.b'', ''climate.c'', ''climate.d''] None)
     = [''climate.a''] @ ''climate.b'' # [] @ ''climate.c'' # [''climate.d'']
   \<and> reading_delta (-)
        [''climate.a'' \<mapsto> demo_trv ''heat'' None (Some 18) (Some 20),
         ''climate.b'' \<mapsto> demo_trv ''heat'' None (Some 18) (Some 21),
         ''climate.c'' \<mapsto> demo_trv ''heat'' None (Some 17) (Some 20),
         ''climate.d'' \<mapsto> demo_trv ''heat'' None (Some 19) (Some 20)]
        False 12 ''climate.a'' = Some 2
   \<and> reading_delta (-)
        [''climate.a'' \<mapsto> demo_trv ''heat'' None (Some 18) (Some 20),
         ''climate.b'' \<mapsto> demo_trv ''heat'' None (Some 18) (Some 21),
         ''climate.c'' \<mapsto> demo_trv ''heat'' None (Some 17) (Some 20),
         ''climate.d'' \<mapsto> demo_trv ''heat'' None (Some 19) (Some 20)]
        False 12 ''climate.b'' = Some 3
   \<and> reading_delta (-)
        [''climate.a'' \<mapsto> demo_trv ''heat'' None (Some 18) (Some 20),
         ''climate.b'' \<mapsto> demo_trv ''heat'' None (Some 18) (Some 21),
         ''climate.c'' \<mapsto> demo_trv ''heat'' None (Some 17) (Some 20),
         ''climate.d'' \<mapsto> demo_trv ''heat'' None (Some 19) (Some 20)]
        False 12 ''climate.c'' = Some 3
   \<and> reading_delta (-)
        [''climate.a'' \<mapsto> demo_trv ''heat'' None (Some 18) (Some 20),
         ''climate.b'' \<mapsto> demo_trv ''heat'' None (Some 18) (Some 21),
         ''climate.c'' \<mapsto> demo_trv ''heat'' None (Some 17) (Some 20),
         ''climate.d'' \<mapsto> demo_trv ''heat'' None (Some 19) (Some 20)]
        False 12 ''climate.d'' = Some 1
   \<and> leader_entity_id
        (scan_trvs (-) (demo_config [''climate.a'', ''climate.b'', ''climate.c'', ''climate.d''] None)
           [''climate.a'' \<mapsto> demo_trv ''heat'' None (Some 18) (Some 20),
            ''climate.b'' \<mapsto> demo_trv ''heat'' None (Some 18) (Some 21),
            ''climate.c'' \<mapsto> demo_trv ''heat'' None (Some 17) (Some 20),
            ''climate.d'' \<mapsto> demo_trv ''heat'' None (Some 19) (Some 20)])
      = Some ''climate.b''"
proof -
  let ?cfg = "demo_config [''climate.a'', ''climate.b'', ''climate.c'', ''climate.d''] None"
  let ?st = "[''climate.a'' \<mapsto> demo_trv ''heat'' None (Some 18) (Some 20),
              ''climate.b'' \<mapsto> demo_trv ''heat'' None (Some 18) (Some 21),
              ''climate.c'' \<mapsto> demo_trv ''heat'' None (Some 17) (Some 20),
              ''climate.d'' \<mapsto> demo_trv ''heat'' None (Some 19) (Some 20)]"
  have away: "check_away ?cfg ?st = False" and temp: "away_temp ?cfg = 12"
    by (simp_all add: check_away_def demo_config_def)
  have h1: "trv_climate_entities ?cfg
              = [''climate.a''] @ ''climate.b'' # [] @ ''climate.c'' # [''climate.d'']"
    by (simp add: demo_config_def)
  have a: "reading_delta (-) ?st False 12 ''climate.a'' = Some 2"
    and b: "reading_delta (-) ?st False 12 ''climate.b'' = Some 3"
    and c: "reading_delta (-) ?st False 12 ''climate.c'' = Some 3"
    and d: "reading_delta (-) ?st False 12 ''climate.d'' = Some 1"
    by (simp_all add: reading_delta_def demo_trv_def)
  have h2: "reading_delta (-) ?st (check_away ?cfg ?st) (away_temp ?cfg) ''climate.b'' = Some 3"
    unfolding away temp by (rule b)
  have h3: "reading_delta (-) ?st (check_away ?cfg ?st) (away_temp ?cfg) ''climate.c'' = Some 3"
    unfolding away temp by (rule c)
  have h4: "\<forall>x\<in>set [''climate.a'']. \<forall>d'.
              reading_delta (-) ?st (check_away ?cfg ?st) (away_temp ?cfg) x = Some d' \<longrightarrow> d' < 3"
    unfolding away temp using a by simp
  have h5: "\<forall>x\<in>set ([] @ [''climate.d'']). \<forall>d'.
              reading_delta (-) ?st (check_away ?cfg ?st) (away_temp ?cfg) x = Some d' \<longrightarrow> d' \<le> 3"
    unfolding away temp using d by simp
  have h6: "- 100 < (3::real)" by simp
  have "leader_entity_id (scan_trvs (-) ?cfg ?st) = Some ''climate.b''"
    using h1 h2 h3 h4 h5 h6 by (rule tie_keeps_first)
  with h1 a b c d show ?thesis by simp
qed

text \<open>
  Claim C4 as stated lets the last-seen TRV win a tie. With deltas 3 and 3 for A
  and B in that order, B is the last TRV with the largest delta and the leader is
  A.
\<close>

theorem tie_last_seen_counterexample:
  "reading_delta (-)
        [''climate.a'' \<mapsto> demo_trv ''heat'' None (Some 18) (Some 21),
         ''climate.b'' \<mapsto> demo_trv ''heat'' None (Some 17) (Some 20)]
        False 12 ''climate.a'' = Some 3
   \<and> reading_delta (-)
        [''climate.a'' \<mapsto> demo_trv ''heat'' None (Some 18) (Some 21),
         ''climate.b'' \<mapsto> demo_trv ''heat'' None (Some 17) (Some 20)]
        False 12 ''climate.b'' = Some 3
   \<and> leader_entity_id
        (scan_trvs (-) (demo_config [''climate.a'', ''climate.b''] None)
           [''climate.a'' \<mapsto> demo_trv ''heat'' None (Some 18) (Some 21),
            ''climate.b'' \<mapsto> demo_trv ''heat'' None (Some 17) (Some 20)])
      = Some ''climate.a''
   \<and> leader_entity_id
        (scan_trvs (-) (demo_config [''climate.a'', ''climate.b''] None)
           [''climate.a'' \<mapsto> demo_trv ''heat'' None (Some 18) (Some 21),
            ''climate.b'' \<mapsto> demo_trv ''heat'' None (Some 17) (Some 20)])
      \<noteq> Some ''climate.b''"
  by (simp add: run_defs)

section \<open>The published leader\<close>

text \<open>
  Whenever the loop holds a leader, the leader's fields are the attributes of that
  entity in the store, unchanged, and the running maximum is its delta.
\<close>

lemma trv_step_leader_cases:
  "(leader_entity_id (trv_step fsub st away a x acc) = leader_entity_id acc
      \<and> leader_current_temp (trv_step fsub st away a x acc) = leader_current_temp acc
      \<and> leader_target_temp (trv_step fsub st away a x acc) = leader_target_temp acc
      \<and> leader_friendly_name (trv_step fsub st away a x acc) = leader_friendly_name acc
      \<and> max_delta (trv_step fsub st away a x acc) = max_delta acc)
   \<or> (\<exists>s cur tgt. st x = Some s \<and> current_temperature s = Some cur
         \<and> temperature s = Some tgt
         \<and> leader_entity_id (trv_step fsub st away a x acc) = Some x
         \<and> leader_current_temp (trv_step fsub st away a x acc) = Some cur
         \<and> leader_target_temp (trv_step fsub st away a x acc) = Some tgt
         \<and> leader_friendly_name (trv_step fsub st away a x acc) = friendly_name s
         \<and> max_delta (trv_step fsub st away a x acc) = fsub (if away then a else tgt) cur)"
  by (simp add: trv_step_def trv_delta_def effective_target_temperature_def Let_def
        split: option.splits)

lemma trv_step_leader_source:
  assumes "\<forall>e. leader_entity_id acc = Some e \<longrightarrow>
             (\<exists>s cur tgt. st e = Some s \<and> current_temperature s = Some cur
                \<and> temperature s = Some tgt
                \<and> leader_current_temp acc = Some cur \<and> leader_target_temp acc = Some tgt
                \<and> leader_friendly_name acc = friendly_name s
                \<and> max_delta acc = fsub (if away then a else tgt) cur)"
  shows "\<forall>e. leader_entity_id (trv_step fsub st away a x acc) = Some e \<longrightarrow>
             (\<exists>s cur tgt. st e = Some s \<and> current_temperature s = Some cur
                \<and> temperature s = Some tgt
                \<and> leader_current_temp (trv_step fsub st away a x acc) = Some cur
                \<and> leader_target_temp (trv_step fsub st away a x acc) = Some tgt
                \<and> leader_friendly_name (trv_step fsub st away a x acc) = friendly_name s
                \<and> max_delta (trv_step fsub st away a x acc) = fsub (if away then a else tgt) cur)"
proof -
  from trv_step_leader_cases [of fsub st away a x acc] show ?thesis
  proof
    assume "leader_entity_id (trv_step fsub st away a x acc) = leader_entity_id acc
      \<and> leader_current_temp (trv_step fsub st away a x acc) = leader_current_temp acc
      \<and> leader_target_temp (trv_step fsub st away a x acc) = leader_target_temp acc
      \<and> leader_friendly_name (trv_step fsub st away a x acc) = leader_friendly_name acc
      \<and> max_delta (trv_step fsub st away a x acc) = max_delta acc"
    with assms show ?thesis by simp
  next
    assume "\<exists>s cur tgt. st x = Some s \<and> current_temperature s = Some cur
         \<and> temperature s = Some tgt
         \<and> leader_entity_id (trv_step fsub st away a x acc) = Some x
         \<and> leader_current_temp (trv_step fsub st away a x acc) = Some cur
         \<and> leader_target_temp (trv_step fsub st away a x acc) = Some tgt
         \<and> leader_friendly_name (trv_step fsub st away a x acc) = friendly_name s
         \<and> max_delta (trv_step fsub st away a x acc) = fsub (if away then a else tgt) cur"
    then obtain s cur tgt where
      src: "st x = Some s" "current_temperature s = Some cur" "temperature s = Some tgt"
      and lead: "leader_entity_id (trv_step fsub st away a x acc) = Some x"
      and flds: "leader_current_temp (trv_step fsub st away a x acc) = Some cur"
        "leader_target_temp (trv_step fsub st away a x acc) = Some tgt"
        "leader_friendly_name (trv_step fsub st away a x acc) = friendly_name s"
        "max_delta (trv_step fsub st away a x acc) = fsub (if away then a else tgt) cur"
      by blast
    show ?thesis
    proof (intro allI impI)
      fix e
      assume "leader_entity_id (trv_step fsub st away a x acc) = Some e"
      with lead have "e = x" by simp
      with src flds
      show "\<exists>s cur tgt. st e = Some s \<and> current_temperature s = Some cur
                \<and> temperature s = Some tgt
                \<and> leader_current_temp (trv_step fsub st away a x acc) = Some cur
                \<and> leader_target_temp (trv_step fsub st away a x acc) = Some tgt
                \<and> leader_friendly_name (trv_step fsub st away a x acc) = friendly_name s
                \<and> max_delta (trv_step fsub st away a x acc)
                    = fsub (if away then a else tgt) cur"
        by blast
    qed
  qed
qed

lemma trv_loop_leader_source:
  assumes "\<forall>e. leader_entity_id acc = Some e \<longrightarrow>
             (\<exists>s cur tgt. st e = Some s \<and> current_temperature s = Some cur
                \<and> temperature s = Some tgt
                \<and> leader_current_temp acc = Some cur \<and> leader_target_temp acc = Some tgt
                \<and> leader_friendly_name acc = friendly_name s
                \<and> max_delta acc = fsub (if away then a else tgt) cur)"
  shows "\<forall>e. leader_entity_id (trv_loop fsub st away a es acc) = Some e \<longrightarrow>
             (\<exists>s cur tgt. st e = Some s \<and> current_temperature s = Some cur
                \<and> temperature s = Some tgt
                \<and> leader_current_temp (trv_loop fsub st away a es acc) = Some cur
                \<and> leader_target_temp (trv_loop fsub st away a es acc) = Some tgt
                \<and> leader_friendly_name (trv_loop fsub st away a es acc) = friendly_name s
                \<and> max_delta (trv_loop fsub st away a es acc) = fsub (if away then a else tgt) cur)"
  using assms
proof (induction es arbitrary: acc)
  case Nil
  then show ?case by simp
next
  case (Cons x xs)
  from Cons.prems have "\<forall>e. leader_entity_id (trv_step fsub st away a x acc) = Some e \<longrightarrow>
             (\<exists>s cur tgt. st e = Some s \<and> current_temperature s = Some cur
                \<and> temperature s = Some tgt
                \<and> leader_current_temp (trv_step fsub st away a x acc) = Some cur
                \<and> leader_target_temp (trv_step fsub st away a x acc) = Some tgt
                \<and> leader_friendly_name (trv_step fsub st away a x acc) = friendly_name s
                \<and> max_delta (trv_step fsub st away a x acc) = fsub (if away then a else tgt) cur)"
    by (rule trv_step_leader_source)
  from Cons.IH [OF this] show ?case by simp
qed

lemma scan_trvs_leader_source:
  assumes "leader_entity_id (scan_trvs fsub cfg st) = Some e"
  shows "\<exists>s cur tgt. st e = Some s \<and> current_temperature s = Some cur
        \<and> temperature s = Some tgt
        \<and> leader_current_temp (scan_trvs fsub cfg st) = Some cur
        \<and> leader_target_temp (scan_trvs fsub cfg st) = Some tgt
        \<and> leader_friendly_name (scan_trvs fsub cfg st) = friendly_name s
        \<and> max_delta (scan_trvs fsub cfg st)
            = fsub (if check_away cfg st then away_temp cfg else tgt) cur"
proof -
  have "\<forall>e. leader_entity_id init_scan = Some e \<longrightarrow>
             (\<exists>s cur tgt. st e = Some s \<and> current_temperature s = Some cur
                \<and> temperature s = Some tgt
                \<and> leader_current_temp init_scan = Some cur
                \<and> leader_target_temp init_scan = Some tgt
                \<and> leader_friendly_name init_scan = friendly_name s
                \<and> max_delta init_scan
                    = fsub (if check_away cfg st then away_temp cfg else tgt) cur)"
    by (simp add: init_scan_def)
  from trv_loop_leader_source [OF this, of "trv_climate_entities cfg"] assms
  show ?thesis unfolding scan_trvs_def by blast
qed

lemma published_leader_source:
  assumes "max_demand_trv_entity_id (fst (update_heating_demand fsub cfg st self)) = Some e"
  shows "\<exists>s cur tgt. st e = Some s \<and> current_temperature s = Some cur
        \<and> temperature s = Some tgt
        \<and> max_demand_current_temperature (fst (update_heating_demand fsub cfg st self)) = Some cur
        \<and> max_demand_target_temperature (fst (update_heating_demand fsub cfg st self)) = Some tgt
        \<and> max_demand_trv_name (fst (update_heating_demand fsub cfg st self)) = friendly_name s
        \<and> max_demand_delta (fst (update_heating_demand fsub cfg st self))
            = max 0 (fsub (if check_away cfg st then away_temp cfg else tgt) cur)"
proof -
  from assms have l: "leader_entity_id (scan_trvs fsub cfg st) = Some e"
    and v: "valid_trv_found (scan_trvs fsub cfg st) \<and> truthy (leader_entity_id (scan_trvs fsub cfg st))"
    by (auto simp add: update_heating_demand_def publish_def Let_def split: if_splits)
  from scan_trvs_leader_source [OF l] v show ?thesis
    by (auto simp add: update_heating_demand_def publish_def Let_def)
qed

text \<open>
  The populated case of the publish step: when some configured entity with a
  non-empty id is the first to reach the largest delta, and that delta exceeds the
  initial threshold \<open>-100\<close>, the published fields are that entity's.
\<close>

lemma published_first_max:
  assumes "trv_climate_entities cfg = pre @ e # post" and "e \<noteq> []"
    and "reading_delta fsub st (check_away cfg st) (away_temp cfg) e = Some d"
    and "\<forall>x\<in>set pre. \<forall>d'.
           reading_delta fsub st (check_away cfg st) (away_temp cfg) x = Some d' \<longrightarrow> d' < d"
    and "\<forall>x\<in>set post. \<forall>d'.
           reading_delta fsub st (check_away cfg st) (away_temp cfg) x = Some d' \<longrightarrow> d' \<le> d"
    and "- 100 < d"
  shows "max_demand_trv_entity_id (fst (update_heating_demand fsub cfg st self)) = Some e
    \<and> max_demand_delta (fst (update_heating_demand fsub cfg st self)) = max 0 d
    \<and> (\<exists>s. st e = Some s
          \<and> max_demand_current_temperature (fst (update_heating_demand fsub cfg st self))
              = current_temperature s
          \<and> max_demand_target_temperature (fst (update_heating_demand fsub cfg st self))
              = temperature s
          \<and> max_demand_trv_name (fst (update_heating_demand fsub cfg st self)) = friendly_name s)"
proof -
  have "max_delta init_scan < d"
    using assms(6) by (simp add: init_scan_def)
  from trv_loop_first_max [OF assms(3) this assms(4,5)] assms(2)
  show ?thesis
    by (auto simp add: update_heating_demand_def publish_def scan_trvs_def assms(1) Let_def)
qed

text \<open>
  Claim C2 says that the leader fields are populated whenever a valid TRV exists,
  and reset only when none does. The loop's initial threshold is \<^verbatim>\<open>-100.0\<close>, and
  a valid TRV whose delta does not exceed it never becomes the leader. Here the
  only configured TRV is valid (current temperature 150, target 20, delta
  \<open>-130\<close>, which the float subtraction gives without rounding) and has a
  friendly name, and the recompute publishes the fallback values: no entity id,
  no temperatures, no name.
\<close>

theorem valid_trv_below_threshold_resets:
  "reading_delta (-)
     [''climate.trv1'' \<mapsto> (demo_trv ''heat'' None (Some 150) (Some 20))
                            \<lparr>friendly_name := Some ''Hall''\<rparr>]
     False 12 ''climate.trv1'' = Some (- 130)
   \<and> valid_trv_found
       (scan_trvs (-) (demo_config [''climate.trv1''] None)
          [''climate.trv1'' \<mapsto> (demo_trv ''heat'' None (Some 150) (Some 20))
                                 \<lparr>friendly_name := Some ''Hall''\<rparr>])
   \<and> max_demand_trv_entity_id
       (fst (update_heating_demand (-) (demo_config [''climate.trv1''] None)
          [''climate.trv1'' \<mapsto> (demo_trv ''heat'' None (Some 150) (Some 20))
                                 \<lparr>friendly_name := Some ''Hall''\<rparr>]
          init_sensor)) = None
   \<and> max_demand_current_temperature
       (fst (update_heating_demand (-) (demo_config [''climate.trv1''] None)
          [''climate.trv1'' \<mapsto> (demo_trv ''heat'' None (Some 150) (Some 20))
                                 \<lparr>friendly_name := Some ''Hall''\<rparr>]
          init_sensor)) = None
   \<and> max_demand_target_temperature
       (fst (update_heating_demand (-) (demo_config [''climate.trv1''] None)
          [''climate.trv1'' \<mapsto> (demo_trv ''heat'' None (Some 150) (Some 20))
                                 \<lparr>friendly_name := Some ''Hall''\<rparr>]
          init_sensor)) = None
   \<and> max_demand_trv_name
       (fst (update_heating_demand (-) (demo_config [''climate.trv1''] None)
          [''climate.trv1'' \<mapsto> (demo_trv ''heat'' None (Some 150) (Some 20))
                                 \<lparr>friendly_name := Some ''Hall''\<rparr>]
          init_sensor)) = None
   \<and> max_demand_delta
       (fst (update_heating_demand (-) (demo_config [''climate.trv1''] None)
          [''climate.trv1'' \<mapsto> (demo_trv ''heat'' None (Some 150) (Some 20))
                                 \<lparr>friendly_name := Some ''Hall''\<rparr>]
          init_sensor)) = 0"
  by (simp add: run_defs)

section \<open>Away mode\<close>

lemma check_away_iff:
  "check_away cfg st
     = (\<exists>z s. zone_entity_id cfg = Some z \<and> z \<noteq> [] \<and> st z = Some s \<and> state s = ''0'')"
  by (auto simp add: check_away_def split: option.splits)

lemma is_away_update:
  "is_away (fst (update_heating_demand fsub cfg st self)) = check_away cfg st"
  by (simp add: update_heating_demand_def publish_def Let_def)

text \<open>Which entities make the loop count a demand, for either value of the away flag.\<close>

lemma trv_step_demanding_iff:
  "0 < demanding_trvs (trv_step fsub st away a e acc) \<longleftrightarrow>
     0 < demanding_trvs acc
     \<or> (\<exists>s cur tgt. st e = Some s \<and> current_temperature s = Some cur
           \<and> temperature s = Some tgt
           \<and> (hvac_action s = Some ''heating''
              \<or> (state s = ''heat'' \<and> 0 < fsub (if away then a else tgt) cur)))"
  by (auto simp add: trv_step_def trv_delta_def effective_target_temperature_def Let_def
        split: option.splits)

lemma trv_loop_demanding_iff:
  "0 < demanding_trvs (trv_loop fsub st away a es acc) \<longleftrightarrow>
     0 < demanding_trvs acc
     \<or> (\<exists>e\<in>set es. \<exists>s cur tgt. st e = Some s \<and> current_temperature s = Some cur
           \<and> temperature s = Some tgt
           \<and> (hvac_action s = Some ''heating''
              \<or> (state s = ''heat'' \<and> 0 < fsub (if away then a else tgt) cur)))"
proof (induction es arbitrary: acc)
  case Nil
  show ?case by simp
next
  case (Cons x xs)
  show ?case
    unfolding trv_loop.simps Cons.IH trv_step_demanding_iff by auto
qed

text \<open>
  Under away mode the loop is the loop without away mode on the store in which
  every present target is the away temperature; only the leader's reported target
  differs, since it stays the TRV's own.
\<close>

lemma forget_target_eq:
  "forget_target acc = forget_target acc' \<longleftrightarrow>
     demanding_trvs acc = demanding_trvs acc' \<and> max_delta acc = max_delta acc'
     \<and> leader_entity_id acc = leader_entity_id acc'
     \<and> leader_current_temp acc = leader_current_temp acc'
     \<and> leader_friendly_name acc = leader_friendly_name acc'
     \<and> valid_trv_found acc = valid_trv_found acc'"
  by (cases acc, cases acc') (auto simp add: forget_target_def)

lemma trv_step_override:
  assumes "forget_target acc = forget_target acc'"
  shows "forget_target (trv_step fsub st True a e acc)
       = forget_target (trv_step fsub (override_targets a st) False a e acc')"
  using assms unfolding forget_target_eq
  by (auto simp add: trv_step_def override_targets_def trv_delta_def
        effective_target_temperature_def Let_def split: option.splits)

lemma trv_loop_override:
  assumes "forget_target acc = forget_target acc'"
  shows "forget_target (trv_loop fsub st True a es acc)
       = forget_target (trv_loop fsub (override_targets a st) False a es acc')"
  using assms
proof (induction es arbitrary: acc acc')
  case Nil
  then show ?case by simp
next
  case (Cons e es)
  from Cons.prems have "forget_target (trv_step fsub st True a e acc)
       = forget_target (trv_step fsub (override_targets a st) False a e acc')"
    by (rule trv_step_override)
  then show ?case using Cons.IH by simp
qed

text \<open>
  Claim C6. After a recompute the away flag is true exactly when a non-empty zone
  entity id is configured, the store has a state for it, and that state's raw
  string is \<^verbatim>\<open>"0"\<close>. When the flag is true, every delta is taken against
  \<^verbatim>\<open>away_temp\<close>: the demand flag holds exactly when some configured valid TRV is
  heating, or is in state \<^verbatim>\<open>"heat"\<close> with a positive float difference of
  \<^verbatim>\<open>away_temp\<close> and its current temperature; the published delta is the float
  difference of \<^verbatim>\<open>away_temp\<close> and the leader's current temperature, clamped
  at zero; and the whole scan, the leader's reported target apart, is the scan
  without away mode of the store whose targets are all \<^verbatim>\<open>away_temp\<close>. With
  the exact subtraction for \<open>fsub\<close> the two differences read
  \<open>away_temp - current\<close>.
\<close>

theorem away_mode:
  "is_away (fst (update_heating_demand fsub cfg st self))
     = (\<exists>z s. zone_entity_id cfg = Some z \<and> z \<noteq> [] \<and> st z = Some s \<and> state s = ''0'')
   \<and> (is_away (fst (update_heating_demand fsub cfg st self)) \<longrightarrow>
        is_heating_demanded (fst (update_heating_demand fsub cfg st self))
          = (\<exists>e\<in>set (trv_climate_entities cfg). \<exists>s cur tgt.
               st e = Some s \<and> current_temperature s = Some cur \<and> temperature s = Some tgt
               \<and> (hvac_action s = Some ''heating''
                  \<or> (state s = ''heat'' \<and> 0 < fsub (away_temp cfg) cur)))
        \<and> (\<forall>e. max_demand_trv_entity_id (fst (update_heating_demand fsub cfg st self)) = Some e \<longrightarrow>
              (\<exists>s cur. st e = Some s \<and> current_temperature s = Some cur
                 \<and> max_demand_delta (fst (update_heating_demand fsub cfg st self))
                     = max 0 (fsub (away_temp cfg) cur)))
        \<and> forget_target (scan_trvs fsub cfg st)
            = forget_target
                (trv_loop fsub (override_targets (away_temp cfg) st) False (away_temp cfg)
                   (trv_climate_entities cfg) init_scan))"
proof -
  have flag: "is_away (fst (update_heating_demand fsub cfg st self))
      = (\<exists>z s. zone_entity_id cfg = Some z \<and> z \<noteq> [] \<and> st z = Some s \<and> state s = ''0'')"
    unfolding is_away_update by (rule check_away_iff)
  have demand: "is_heating_demanded (fst (update_heating_demand fsub cfg st self))
          = (\<exists>e\<in>set (trv_climate_entities cfg). \<exists>s cur tgt.
               st e = Some s \<and> current_temperature s = Some cur \<and> temperature s = Some tgt
               \<and> (hvac_action s = Some ''heating''
                  \<or> (state s = ''heat'' \<and> 0 < fsub (away_temp cfg) cur)))"
    if "check_away cfg st"
    unfolding is_heating_demanded_update scan_trvs_def trv_loop_demanding_iff
    using that by (simp add: init_scan_def)
  have delta: "\<forall>e. max_demand_trv_entity_id (fst (update_heating_demand fsub cfg st self)) = Some e \<longrightarrow>
              (\<exists>s cur. st e = Some s \<and> current_temperature s = Some cur
                 \<and> max_demand_delta (fst (update_heating_demand fsub cfg st self))
                     = max 0 (fsub (away_temp cfg) cur))"
    if "check_away cfg st"
    using published_leader_source [of fsub cfg st self] that by fastforce
  have scan: "forget_target (scan_trvs fsub cfg st)
            = forget_target
                (trv_loop fsub (override_targets (away_temp cfg) st) False (away_temp cfg)
                   (trv_climate_entities cfg) init_scan)"
    if "check_away cfg st"
    unfolding scan_trvs_def using that by (simp add: trv_loop_override)
  show ?thesis
    using flag demand delta scan unfolding is_away_update by blast
qed

text \<open>
  An instance, the away scenario of the specification: the zone entity reports
  \<^verbatim>\<open>"0"\<close>, the TRV has target 21 and current temperature 15, and
  \<^verbatim>\<open>away_temp\<close> is 12. The delta is \<open>12 - 15\<close>, so there is no demand and the
  published delta is 0.
\<close>

theorem away_mode_witness:
  "is_away
     (fst (update_heating_demand (-) (demo_config [''climate.trv1''] (Some ''zone.home''))
            [''zone.home'' \<mapsto> demo_trv ''0'' None None None,
             ''climate.trv1'' \<mapsto> demo_trv ''heat'' (Some ''idle'') (Some 15) (Some 21)]
            init_sensor))
   \<and> \<not> is_heating_demanded
     (fst (update_heating_demand (-) (demo_config [''climate.trv1''] (Some ''zone.home''))
            [''zone.home'' \<mapsto> demo_trv ''0'' None None None,
             ''climate.trv1'' \<mapsto> demo_trv ''heat'' (Some ''idle'') (Some 15) (Some 21)]
            init_sensor))
   \<and> max_demand_trv_entity_id
     (fst (update_heating_demand (-) (demo_config [''climate.trv1''] (Some ''zone.home''))
            [''zone.home'' \<mapsto> demo_trv ''0'' None None None,
             ''climate.trv1'' \<mapsto> demo_trv ''heat'' (Some ''idle'') (Some 15) (Some 21)]
            init_sensor)) = Some ''climate.trv1''
   \<and> max_demand_delta
     (fst (update_heating_demand (-) (demo_config [''climate.trv1''] (Some ''zone.home''))
            [''zone.home'' \<mapsto> demo_trv ''0'' None None None,
             ''climate.trv1'' \<mapsto> demo_trv ''heat'' (Some ''idle'') (Some 15) (Some 21)]
            init_sensor)) = max 0 (12 - 15)"
proof -
  let ?cfg = "demo_config [''climate.trv1''] (Some ''zone.home'')"
  let ?st = "[''zone.home'' \<mapsto> demo_trv ''0'' None None None,
              ''climate.trv1'' \<mapsto> demo_trv ''heat'' (Some ''idle'') (Some 15) (Some 21)]"
  let ?r = "fst (update_heating_demand (-) ?cfg ?st init_sensor)"
  have zone: "\<exists>z s. zone_entity_id ?cfg = Some z \<and> z \<noteq> [] \<and> ?st z = Some s \<and> state s = ''0''"
    by (simp add: demo_config_def demo_trv_def)
  note am = away_mode [of "(-)" ?cfg ?st init_sensor]
  from am zone have away: "is_away ?r" by blast
  have id: "max_demand_trv_entity_id ?r = Some ''climate.trv1''"
    by (simp add: run_defs)
  from am away id have "\<exists>s cur. ?st ''climate.trv1'' = Some s \<and> current_temperature s = Some cur
      \<and> max_demand_delta ?r = max 0 (away_temp ?cfg - cur)"
    by blast
  then have delta: "max_demand_delta ?r = max 0 (12 - 15)"
    by (auto simp add: demo_config_def demo_trv_def)
  from am away have "is_heating_demanded ?r
          = (\<exists>e\<in>set (trv_climate_entities ?cfg). \<exists>s cur tgt.
               ?st e = Some s \<and> current_temperature s = Some cur \<and> temperature s = Some tgt
               \<and> (hvac_action s = Some ''heating''
                  \<or> (state s = ''heat'' \<and> 0 < away_temp ?cfg - cur)))"
    by blast
  then have demand: "\<not> is_heating_demanded ?r"
    by (simp add: demo_config_def demo_trv_def)
  from away demand id delta show ?thesis by blast
qed

section \<open>The heater command\<close>

text \<open>
  Claim C7. With a heater entity configured, the recompute hands a command to the
  dispatcher: its mode is \<^verbatim>\<open>"heat"\<close> when the demand flag is set and \<^verbatim>\<open>"off"\<close>
  otherwise; its target is the published leader target when the demand flag is
  set and a leader target is present, and \<^verbatim>\<open>minimum_temperature\<close> otherwise. The
  published leader target is the leader's own \<^verbatim>\<open>temperature\<close> attribute, also
  in away mode.
\<close>

theorem heater_command_derived:
  assumes "truthy (heater_entity_id cfg)"
  shows "(is_heating_demanded (fst (update_heating_demand fsub cfg st self)) \<longrightarrow>
            (\<forall>t. max_demand_target_temperature (fst (update_heating_demand fsub cfg st self)) = Some t
               \<longrightarrow> snd (update_heating_demand fsub cfg st self) = Some (t, ''heat''))
          \<and> (max_demand_target_temperature (fst (update_heating_demand fsub cfg st self)) = None
               \<longrightarrow> snd (update_heating_demand fsub cfg st self)
                     = Some (minimum_temperature cfg, ''heat'')))
       \<and> (\<not> is_heating_demanded (fst (update_heating_demand fsub cfg st self)) \<longrightarrow>
            snd (update_heating_demand fsub cfg st self) = Some (minimum_temperature cfg, ''off''))
       \<and> (\<forall>e. max_demand_trv_entity_id (fst (update_heating_demand fsub cfg st self)) = Some e \<longrightarrow>
            (\<exists>s. st e = Some s
               \<and> max_demand_target_temperature (fst (update_heating_demand fsub cfg st self))
                   = temperature s))"
proof -
  have cmd: "snd (update_heating_demand fsub cfg st self)
               = heater_command cfg (fst (update_heating_demand fsub cfg st self))"
    by (simp add: update_heating_demand_def Let_def)
  have raw: "\<forall>e. max_demand_trv_entity_id (fst (update_heating_demand fsub cfg st self)) = Some e \<longrightarrow>
            (\<exists>s. st e = Some s
               \<and> max_demand_target_temperature (fst (update_heating_demand fsub cfg st self))
                   = temperature s)"
    using published_leader_source [of fsub cfg st self] by fastforce
  show ?thesis unfolding cmd using assms raw
    by (simp add: heater_command_def)
qed

text \<open>
  An instance, the first scenario of the specification: \<^verbatim>\<open>climate.trv1\<close> reports
  18 of 21 and is heating, \<^verbatim>\<open>climate.trv2\<close> reports 20 of 20 and is idle. The
  leader is \<^verbatim>\<open>climate.trv1\<close> and the command is its target 21 with mode
  \<^verbatim>\<open>"heat"\<close>.
\<close>

theorem heater_command_derived_witness:
  "truthy (heater_entity_id (demo_config [''climate.trv1'', ''climate.trv2''] None))
   \<and> is_heating_demanded
       (fst (update_heating_demand (-) (demo_config [''climate.trv1'', ''climate.trv2''] None)
              [''climate.trv1'' \<mapsto> demo_trv ''heat'' (Some ''heating'') (Some 18) (Some 21),
               ''climate.trv2'' \<mapsto> demo_trv ''heat'' (Some ''idle'') (Some 20) (Some 20)]
              init_sensor))
   \<and> max_demand_target_temperature
       (fst (update_heating_demand (-) (demo_config [''climate.trv1'', ''climate.trv2''] None)
              [''climate.trv1'' \<mapsto> demo_trv ''heat'' (Some ''heating'') (Some 18) (Some 21),
               ''climate.trv2'' \<mapsto> demo_trv ''heat'' (Some ''idle'') (Some 20) (Some 20)]
              init_sensor)) = Some 21
   \<and> snd (update_heating_demand (-) (demo_config [''climate.trv1'', ''climate.trv2''] None)
              [''climate.trv1'' \<mapsto> demo_trv ''heat'' (Some ''heating'') (Some 18) (Some 21),
               ''climate.trv2'' \<mapsto> demo_trv ''heat'' (Some ''idle'') (Some 20) (Some 20)]
              init_sensor)
      = Some (21, ''heat'')"
proof -
  let ?cfg = "demo_config [''climate.trv1'', ''climate.trv2''] None"
  let ?st = "[''climate.trv1'' \<mapsto> demo_trv ''heat'' (Some ''heating'') (Some 18) (Some 21),
              ''climate.trv2'' \<mapsto> demo_trv ''heat'' (Some ''idle'') (Some 20) (Some 20)]"
  have h: "truthy (heater_entity_id ?cfg)"
    by (simp add: demo_config_def)
  have d: "is_heating_demanded (fst (update_heating_demand (-) ?cfg ?st init_sensor))"
    by (simp add: run_defs)
  have t: "max_demand_target_temperature (fst (update_heating_demand (-) ?cfg ?st init_sensor))
             = Some 21"
    by (simp add: run_defs)
  from heater_command_derived [OF h, of "(-)" ?st init_sensor] d t
  have "snd (update_heating_demand (-) ?cfg ?st init_sensor) = Some (21, ''heat'')"
    by blast
  with h d t show ?thesis by blast
qed

section \<open>The dispatcher's debounce\<close>



section \<open>The plain sensor\<close>

lemma sensor_rule_iff:
  "sensor_rule s \<longleftrightarrow>
     hvac_action s = Some ''heating''
     \<or> (state s = ''heat''
        \<and> (\<exists>cur tgt. current_temperature s = Some cur \<and> temperature s = Some tgt
              \<and> cur < tgt))"
  by (auto simp add: sensor_rule_def split: option.splits)

lemma sensor_loop_pos:
  "0 < sensor_loop st es n \<longleftrightarrow> 0 < n \<or> (\<exists>e\<in>set es. \<exists>s. st e = Some s \<and> sensor_rule s)"
  by (induction es arbitrary: n) (auto split: option.splits)

text \<open>
  Claim C9. The plain sensor reports \<^verbatim>\<open>"on"\<close> exactly when some configured TRV
  whose state is present has \<^verbatim>\<open>hvac_action == "heating"\<close>, or has the raw state
  \<^verbatim>\<open>"heat"\<close> with both temperatures present and the current temperature
  strictly below the TRV's own target. The function reads no zone entity and no
  away temperature.
\<close>

theorem plain_sensor_rule:
  "sensor_state (sensor_update entities st) = ''on'' \<longleftrightarrow>
     (\<exists>e\<in>set entities. \<exists>s. st e = Some s
        \<and> (hvac_action s = Some ''heating''
           \<or> (state s = ''heat''
              \<and> (\<exists>cur tgt. current_temperature s = Some cur \<and> temperature s = Some tgt
                    \<and> cur < tgt))))"
  by (simp add: sensor_state_def sensor_update_def sensor_loop_pos sensor_rule_iff)

text \<open>
  An instance that separates the two variants: the zone reports away, the TRV is
  in state \<^verbatim>\<open>"heat"\<close> at 15 with its own target 21, and \<^verbatim>\<open>away_temp\<close> is
  12. The plain sensor is \<^verbatim>\<open>"on"\<close> (15 is below 21); the binary sensor sees the
  delta \<open>12 - 15\<close> and reports no demand.
\<close>

theorem plain_sensor_rule_witness:
  "sensor_state
     (sensor_update [''climate.trv1'']
        [''zone.home'' \<mapsto> demo_trv ''0'' None None None,
         ''climate.trv1'' \<mapsto> demo_trv ''heat'' (Some ''idle'') (Some 15) (Some 21)])
     = ''on''
   \<and> \<not> is_heating_demanded
     (fst (update_heating_demand (-) (demo_config [''climate.trv1''] (Some ''zone.home''))
            [''zone.home'' \<mapsto> demo_trv ''0'' None None None,
             ''climate.trv1'' \<mapsto> demo_trv ''heat'' (Some ''idle'') (Some 15) (Some 21)]
            init_sensor))"
proof -
  let ?st = "[''zone.home'' \<mapsto> demo_trv ''0'' None None None,
              ''climate.trv1'' \<mapsto> demo_trv ''heat'' (Some ''idle'') (Some 15) (Some 21)]"
  have "\<exists>e\<in>set [''climate.trv1'']. \<exists>s. ?st e = Some s
        \<and> (hvac_action s = Some ''heating''
           \<or> (state s = ''heat''
              \<and> (\<exists>cur tgt. current_temperature s = Some cur \<and> temperature s = Some tgt
                    \<and> cur < tgt)))"
    by (simp add: demo_trv_def)
  then have on: "sensor_state (sensor_update [''climate.trv1''] ?st) = ''on''"
    by (simp only: plain_sensor_rule)
  have "\<not> is_heating_demanded
     (fst (update_heating_demand (-) (demo_config [''climate.trv1''] (Some ''zone.home''))
            ?st init_sensor))"
    by (simp add: run_defs)
  with on show ?thesis by blast
qed

section \<open>The early exit of the plain sensor\<close>

lemma full_scan_count_mono: "n \<le> full_scan_count st es n"
proof (induction es arbitrary: n)
  case Nil
  show ?case by simp
next
  case (Cons e es)
  have "n \<le> full_scan_count st es n" "n \<le> full_scan_count st es (n + 1)"
    using Cons.IH [of n] Cons.IH [of "n + 1"] by simp_all
  then show ?case by (simp split: option.splits)
qed

lemma early_exit_general:
  "(0 < sensor_loop st es n) = (0 < full_scan_count st es n)"
proof (induction es arbitrary: n)
  case Nil
  show ?case by simp
next
  case (Cons e es)
  have "0 < full_scan_count st es (n + 1)"
    using full_scan_count_mono [of "n + 1" st es] by simp
  then show ?case using Cons.IH by (simp split: option.splits)
qed

text \<open>
  Claim C10. Leaving the loop at the first demanding TRV gives the same boolean as
  scanning the whole configured list: for every store and list, the plain
  sensor's demand flag equals "the number of demanding TRVs in the list is
  positive".
\<close>

theorem early_exit_agrees:
  "sensor_update entities st = (0 < full_scan_count st entities 0)"
  by (simp add: sensor_update_def early_exit_general)

text \<open>
  An instance with two demanding TRVs: the loop stops after the first with count
  1, the full scan counts 2, and both say "demand".
\<close>

theorem early_exit_agrees_witness:
  "sensor_loop
     [''climate.a'' \<mapsto> demo_trv ''heat'' (Some ''heating'') None None,
      ''climate.b'' \<mapsto> demo_trv ''heat'' None (Some 18) (Some 21)]
     [''climate.a'', ''climate.b''] 0 = 1
   \<and> full_scan_count
     [''climate.a'' \<mapsto> demo_trv ''heat'' (Some ''heating'') None None,
      ''climate.b'' \<mapsto> demo_trv ''heat'' None (Some 18) (Some 21)]
     [''climate.a'', ''climate.b''] 0 = 2
   \<and> sensor_update [''climate.a'', ''climate.b'']
     [''climate.a'' \<mapsto> demo_trv ''heat'' (Some ''heating'') None None,
      ''climate.b'' \<mapsto> demo_trv ''heat'' None (Some 18) (Some 21)]"
proof -
  let ?st = "[''climate.a'' \<mapsto> demo_trv ''heat'' (Some ''heating'') None None,
              ''climate.b'' \<mapsto> demo_trv ''heat'' None (Some 18) (Some 21)]"
  have loop: "sensor_loop ?st [''climate.a'', ''climate.b''] 0 = 1"
    by (simp add: sensor_rule_def demo_trv_def)
  have full: "full_scan_count ?st [''climate.a'', ''climate.b''] 0 = 2"
    by (simp add: sensor_rule_def demo_trv_def)
  from full have "sensor_update [''climate.a'', ''climate.b''] ?st"
    by (simp only: early_exit_agrees)
  with loop full show ?thesis by blast
qed

end
